theory Spec2Isabelle
  imports Complex_Main
begin

section \<open>Numbers, errors and rounding\<close>

text \<open>
  Python floats are modelled as real numbers: every formula of the source is read with
  exact arithmetic, so overflow, NaN and the last-bit rounding of a float operation are
  outside this development. The one failure of float arithmetic that the source can
  reach, division by zero, is a value of the result type.
\<close>

datatype error = ZeroDivisionError

text \<open>
  \<^verbatim>\<open>round(x, ndigits)\<close>: the nearest multiple of \<open>10 ^ -ndigits\<close>, a tie going to the
  even neighbour. (On a float the tie is decided on the float's exact binary value; the
  theorems below use \<open>py_round\<close> only away from ties or leave it uninterpreted.)
\<close>

definition py_round :: "real \<Rightarrow> nat \<Rightarrow> real" where
  "py_round x ndigits =
     (let y = x * 10 ^ ndigits;
          f = \<lfloor>y\<rfloor>;
          d = y - of_int f
      in of_int (if d < 1 / 2 then f
                 else if 1 / 2 < d then f + 1
                 else if even f then f else f + 1) / 10 ^ ndigits)"

section \<open>app.py: alert tracking with baseline prices\<close>

text \<open>One entry of the dictionary returned by \<^verbatim>\<open>get_prices\<close>; only the keys read by
  \<^verbatim>\<open>run_cycle_async\<close> are kept.\<close>

record price_data =
  price :: real
  trading_date :: string
  is_live :: bool

text \<open>The dataclass \<^verbatim>\<open>PriceAlert\<close> of alert_bus.py.\<close>

record PriceAlert =
  alert_type :: string
  alert_symbol :: string
  alert_direction :: string
  alert_change_pct :: real
  alert_price :: real
  alert_prev_close :: real
  alert_ts :: real
  alert_trading_date :: string

text \<open>
  The module's global dictionaries. \<^verbatim>\<open>LAST_ALERT\<close> maps \<^verbatim>\<open>"price_" + symbol\<close> to the time
  of the last price alert, \<^verbatim>\<open>BASELINE_PRICES\<close> a symbol to its baseline,
  \<^verbatim>\<open>LATEST_ANALYSIS\<close> a symbol to the dictionary stored in the sentiment phase (record
  \<open>snapshot\<close>, one field per key). \<open>emitted\<close> is the sequence of alerts handed to
  \<^verbatim>\<open>emit\<close>, which prints them.
\<close>

record snapshot =
  snap_decision :: string
  snap_confidence :: real
  snap_price :: "real option"
  snap_change_from_baseline :: real
  snap_news_count :: nat
  snap_reddit_count :: nat
  snap_positive :: nat
  snap_negative :: nat
  snap_avg_sentiment :: real
  snap_news_topics :: "(string \<times> real) list"
  snap_reddit_topics :: "(string \<times> real) list"
  snap_sample_titles :: "string list"
  snap_last_updated :: real

record state =
  LAST_ALERT :: "string \<rightharpoonup> real"
  BASELINE_PRICES :: "string \<rightharpoonup> real"
  LATEST_ANALYSIS :: "string \<rightharpoonup> snapshot"
  emitted :: "PriceAlert list"

text \<open>\<^verbatim>\<open>reset_baseline(symbol, price)\<close>; \<open>now\<close> is the clock reading.\<close>

definition reset_baseline :: "real \<Rightarrow> string \<Rightarrow> real \<Rightarrow> state \<Rightarrow> state" where
  "reset_baseline now symbol new_price st =
     st\<lparr>BASELINE_PRICES := (BASELINE_PRICES st)(symbol \<mapsto> new_price),
        LAST_ALERT := (LAST_ALERT st)(''price_'' @ symbol \<mapsto> now)\<rparr>"

text \<open>
  \<^verbatim>\<open>get_cumulative_change(symbol, current_price)\<close>: the value returned (or the exception
  raised by the division) together with the globals after the call.
\<close>

definition get_cumulative_change :: "string \<Rightarrow> real \<Rightarrow> state \<Rightarrow> (error + real) \<times> state" where
  "get_cumulative_change symbol current_price st =
     (case BASELINE_PRICES st symbol of
        None \<Rightarrow> (Inr 0, st\<lparr>BASELINE_PRICES := (BASELINE_PRICES st)(symbol \<mapsto> current_price)\<rparr>)
      | Some baseline \<Rightarrow>
          (if baseline = 0 then Inl ZeroDivisionError
           else Inr ((current_price - baseline) / baseline), st))"

definition should_alert_price :: "string \<Rightarrow> real \<Rightarrow> real \<Rightarrow> bool" where
  "should_alert_price symbol change_pct threshold = (threshold \<le> \<bar>change_pct\<bar>)"

definition emit :: "PriceAlert \<Rightarrow> state \<Rightarrow> state" where
  "emit alert st = st\<lparr>emitted := emitted st @ [alert]\<rparr>"

text \<open>The globals when the module is loaded: three empty dictionaries, nothing emitted.\<close>

definition initial_state :: state where
  "initial_state = \<lparr>LAST_ALERT = Map.empty, BASELINE_PRICES = Map.empty,
                     LATEST_ANALYSIS = Map.empty, emitted = []\<rparr>"

section \<open>sentiment.py\<close>

definition sigmoid :: "real \<Rightarrow> real" where
  "sigmoid x = 1 / (1 + exp (- x))"

text \<open>
  \<^verbatim>\<open>batch_score_texts\<close>: the tokenizer and the classifier are external; \<open>mdl t\<close> stands
  for the score (positive probability minus negative probability) the classifier gives the
  text \<open>t\<close>. The function returns one score per text, and the empty list for no texts.
\<close>

definition batch_score_texts :: "(string \<Rightarrow> real) \<Rightarrow> string list \<Rightarrow> real list" where
  "batch_score_texts mdl texts = (if texts = [] then [] else map mdl texts)"

subsection \<open>Strings\<close>

text \<open>\<^verbatim>\<open>str.lower\<close> on the letters A to Z; every other character is left as it is.\<close>

definition lower_char :: "char \<Rightarrow> char" where
  "lower_char c =
     (case map_of (zip ''ABCDEFGHIJKLMNOPQRSTUVWXYZ'' ''abcdefghijklmnopqrstuvwxyz'') c of
        None \<Rightarrow> c | Some l \<Rightarrow> l)"

definition lower :: "string \<Rightarrow> string" where
  "lower text = map lower_char text"

fun startswith :: "string \<Rightarrow> string \<Rightarrow> bool" where
  "startswith text [] = True"
| "startswith [] (w # ws) = False"
| "startswith (c # cs) (w # ws) = (c = w \<and> startswith cs ws)"

text \<open>\<^verbatim>\<open>word in text\<close>: the word is a contiguous part of the text.\<close>

fun contains :: "string \<Rightarrow> string \<Rightarrow> bool" where
  "contains [] word = (word = [])"
| "contains (c # cs) word = (startswith (c # cs) word \<or> contains cs word)"

subsection \<open>collections.Counter\<close>

text \<open>
  A \<^verbatim>\<open>Counter\<close> is a dictionary, and a dictionary keeps its keys in the order of their
  first insertion: an association list with distinct keys, in that order.
\<close>

type_synonym counter = "(string \<times> nat) list"

text \<open>\<^verbatim>\<open>counter[word] += 1\<close>: a missing key reads as 0 and is inserted last.\<close>

fun counter_incr :: "string \<Rightarrow> counter \<Rightarrow> counter" where
  "counter_incr word [] = [(word, 1)]"
| "counter_incr word ((k, c) # kvs) =
     (if k = word then (k, c + 1) # kvs else (k, c) # counter_incr word kvs)"

text \<open>\<^verbatim>\<open>counter[word]\<close>: the count, 0 for a missing key.\<close>

definition counter_get :: "counter \<Rightarrow> string \<Rightarrow> nat" where
  "counter_get cnt word = (case map_of cnt word of None \<Rightarrow> 0 | Some c \<Rightarrow> c)"

text \<open>
  \<^verbatim>\<open>Counter.most_common(n)\<close> is \<^verbatim>\<open>heapq.nlargest(n, self.items(), key=itemgetter(1))\<close>,
  which the library documents as \<^verbatim>\<open>sorted(iterable, key=key, reverse=True)[:n]\<close>: a stable
  sort by falling count, so that entries of equal count stay in the order in which they
  were first encountered.
\<close>

definition most_common :: "nat \<Rightarrow> counter \<Rightarrow> counter" where
  "most_common n cnt = take n (sort_key (\<lambda>(word, count). - int count) cnt)"

subsection \<open>explain_topics\<close>

text \<open>The inner loop \<^verbatim>\<open>for word in vocab\<close> for one lower-cased text.\<close>

fun count_words :: "string \<Rightarrow> string list \<Rightarrow> counter \<Rightarrow> counter" where
  "count_words text_lower [] cnt = cnt"
| "count_words text_lower (word # vocab) cnt =
     count_words text_lower vocab
       (if contains text_lower word then counter_incr word cnt else cnt)"

text \<open>The outer loop \<^verbatim>\<open>for text in texts\<close>.\<close>

fun count_texts :: "string list \<Rightarrow> string list \<Rightarrow> counter \<Rightarrow> counter" where
  "count_texts [] vocab cnt = cnt"
| "count_texts (text # texts) vocab cnt =
     count_texts texts vocab (count_words (lower text) vocab cnt)"

definition explain_topics :: "string list \<Rightarrow> string list \<Rightarrow> (string \<times> real) list" where
  "explain_topics texts vocab =
     (let counter = count_texts texts vocab [];
          top_topics = most_common 5 counter;
          s = sum_list (map snd counter);
          total = (if s = 0 then 1 else s)
      in map (\<lambda>(word, count). (word, py_round (real count / real total) 3)) top_topics)"

subsection \<open>analyze\<close>

definition news_vocab :: "string list" where
  "news_vocab = [''etf'', ''approval'', ''ban'', ''partnership'', ''surge'', ''drop'',
     ''adoption'', ''guidance'', ''earnings'', ''revenue'', ''profit'']"

definition reddit_vocab :: "string list" where
  "reddit_vocab = [''halving'', ''bullish'', ''bearish'', ''regulation'', ''pump'', ''dump'',
     ''inflation'', ''macro'', ''moon'', ''crash'', ''rally'']"

text \<open>The dictionary returned by \<^verbatim>\<open>analyze\<close>, one field per key.\<close>

record analysis =
  decision :: string
  confidence :: real
  news_count :: nat
  reddit_count :: nat
  total_analyzed :: nat
  positive :: nat
  negative :: nat
  avg_sentiment :: real
  news_topics :: "(string \<times> real) list"
  reddit_topics :: "(string \<times> real) list"
  sample_titles :: "string list"

text \<open>
  The local variable \<^verbatim>\<open>final_confidence\<close> of \<^verbatim>\<open>analyze\<close> as a function of
  \<^verbatim>\<open>all_scores\<close>. \<^verbatim>\<open>analyze\<close> computes it for a non-empty list only.
\<close>

definition final_confidence :: "real list \<Rightarrow> real" where
  "final_confidence all_scores =
     (let avg = sum_list all_scores / real (length all_scores);
          base_confidence = sigmoid (2.0 * avg);
          reliability = min 1.0 (ln (1 + real (length all_scores)) / ln 51)
      in 0.5 + (base_confidence - 0.5) * reliability)"

definition analyze ::
  "string \<Rightarrow> string list \<Rightarrow> string list \<Rightarrow> (string \<Rightarrow> real) \<Rightarrow> real \<Rightarrow> real \<Rightarrow> analysis option"
where
  "analyze symbol news_titles reddit_texts mdl buy sell =
     (let news_scores = batch_score_texts mdl news_titles;
          reddit_scores = batch_score_texts mdl reddit_texts;
          all_scores = news_scores @ reddit_scores
      in if all_scores = [] then None
         else
           let avg = sum_list all_scores / real (length all_scores);
               fc = final_confidence all_scores;
               d = (if buy \<le> fc then ''BUY'' else if fc \<le> sell then ''SELL'' else ''HOLD'')
           in Some \<lparr>decision = d,
                    confidence = py_round (fc * 100) 1,
                    news_count = length news_titles,
                    reddit_count = length reddit_texts,
                    total_analyzed = length all_scores,
                    positive = length (filter (\<lambda>s. 0 < s) all_scores),
                    negative = length (filter (\<lambda>s. s < 0) all_scores),
                    avg_sentiment = py_round avg 3,
                    news_topics = explain_topics news_titles news_vocab,
                    reddit_topics = explain_topics reddit_texts reddit_vocab,
                    sample_titles = take 3 news_titles\<rparr>)"

section \<open>app.py: the monitoring cycle\<close>

record config =
  WATCH :: "string list"
  PRICE_THRESH :: real
  BUY_THRESH :: real
  SELL_THRESH :: real

text \<open>
  The result of a loop or of a cycle: the exception that ended it, if any, and the globals
  as they are then. An exception is not caught by \<^verbatim>\<open>run_cycle_async\<close>; what was written to
  the globals before it stays written.
\<close>

type_synonym outcome = "error option \<times> state"

text \<open>
  One iteration of \<^verbatim>\<open>for symbol, price_data in prices.items()\<close>. \<open>now\<close> stands for the
  clock readings of the iteration.
\<close>

definition price_step :: "real \<Rightarrow> real \<Rightarrow> string \<times> price_data \<Rightarrow> state \<Rightarrow> outcome" where
  "price_step now threshold item st =
     (let symbol = fst item;
          current_price = price (snd item)
      in case get_cumulative_change symbol current_price st of
           (Inl e, st1) \<Rightarrow> (Some e, st1)
         | (Inr cumulative_change, st1) \<Rightarrow>
             let baseline = (case BASELINE_PRICES st1 symbol of
                               None \<Rightarrow> current_price | Some b \<Rightarrow> b)
             in if should_alert_price symbol cumulative_change threshold
                then
                  let direction = (if 0 < cumulative_change then ''up'' else ''down'');
                      st2 = emit \<lparr>alert_type = ''price'', alert_symbol = symbol,
                                  alert_direction = direction,
                                  alert_change_pct = py_round (cumulative_change * 100) 2,
                                  alert_price = py_round current_price 2,
                                  alert_prev_close = py_round baseline 2,
                                  alert_ts = now,
                                  alert_trading_date = trading_date (snd item)\<rparr> st1
                  in (None, reset_baseline now symbol current_price st2)
                else (None, st1))"

fun price_alerts :: "real \<Rightarrow> real \<Rightarrow> (string \<times> price_data) list \<Rightarrow> state \<Rightarrow> outcome" where
  "price_alerts now threshold [] st = (None, st)"
| "price_alerts now threshold (item # items) st =
     (case price_step now threshold item st of
        (Some e, st1) \<Rightarrow> (Some e, st1)
      | (None, st1) \<Rightarrow> price_alerts now threshold items st1)"

text \<open>
  One iteration of \<^verbatim>\<open>for i, symbol in enumerate(WATCH)\<close> with \<open>result\<close> the value
  \<^verbatim>\<open>analyze\<close> returned for the symbol. The dictionary display evaluates
  \<^verbatim>\<open>get_cumulative_change(symbol, prices.get(symbol, {}).get("price", 0))\<close> before the
  assignment to \<^verbatim>\<open>LATEST_ANALYSIS[symbol]\<close>.
\<close>

definition sentiment_step ::
  "real \<Rightarrow> (string \<times> price_data) list \<Rightarrow> string \<Rightarrow> analysis option \<Rightarrow> state \<Rightarrow> outcome"
where
  "sentiment_step now prices symbol result st =
     (case result of
        None \<Rightarrow> (None, st)
      | Some r \<Rightarrow>
          let quote = map_option price (map_of prices symbol)
          in case get_cumulative_change symbol (case quote of None \<Rightarrow> 0 | Some p \<Rightarrow> p) st of
               (Inl e, st1) \<Rightarrow> (Some e, st1)
             | (Inr change, st1) \<Rightarrow>
                 (None, st1\<lparr>LATEST_ANALYSIS := (LATEST_ANALYSIS st1)(symbol \<mapsto>
                    \<lparr>snap_decision = decision r,
                     snap_confidence = confidence r,
                     snap_price = quote,
                     snap_change_from_baseline = change * 100,
                     snap_news_count = news_count r,
                     snap_reddit_count = reddit_count r,
                     snap_positive = positive r,
                     snap_negative = negative r,
                     snap_avg_sentiment = avg_sentiment r,
                     snap_news_topics = news_topics r,
                     snap_reddit_topics = reddit_topics r,
                     snap_sample_titles = sample_titles r,
                     snap_last_updated = now\<rparr>)\<rparr>))"

fun sentiment_updates ::
  "real \<Rightarrow> (string \<times> price_data) list \<Rightarrow> (string \<times> analysis option) list \<Rightarrow> state \<Rightarrow> outcome"
where
  "sentiment_updates now prices [] st = (None, st)"
| "sentiment_updates now prices ((symbol, result) # rest) st =
     (case sentiment_step now prices symbol result st of
        (Some e, st1) \<Rightarrow> (Some e, st1)
      | (None, st1) \<Rightarrow> sentiment_updates now prices rest st1)"

text \<open>
  \<^verbatim>\<open>run_cycle_async\<close>. The collaborators are arguments: \<open>prices\<close> is the dictionary
  \<^verbatim>\<open>get_prices\<close> returned (its items in order), \<open>get_news\<close> and \<open>get_reddit\<close> give the
  texts fetched for a symbol in this cycle, \<open>mdl\<close> is the classifier. The export of
  \<^verbatim>\<open>LATEST_ANALYSIS\<close> at the end of the cycle writes a file and changes no global.
\<close>

definition run_cycle_async ::
  "config \<Rightarrow> (string \<Rightarrow> real) \<Rightarrow> real \<Rightarrow> (string \<times> price_data) list \<Rightarrow>
   (string \<Rightarrow> string list) \<Rightarrow> (string \<Rightarrow> string list) \<Rightarrow> state \<Rightarrow> outcome"
where
  "run_cycle_async cfg mdl now prices get_news get_reddit st =
     (case price_alerts now (PRICE_THRESH cfg) prices st of
        (Some e, st1) \<Rightarrow> (Some e, st1)
      | (None, st1) \<Rightarrow>
          let results = map (\<lambda>symbol. (symbol,
                analyze symbol (get_news symbol) (get_reddit symbol) mdl
                  (BUY_THRESH cfg) (SELL_THRESH cfg))) (WATCH cfg)
          in sentiment_updates now prices results st1)"

section \<open>The aggregation formula in the specification's words\<close>

text \<open>
  The four quantities as the specification writes them, to be compared with
  \<open>final_confidence\<close> and \<open>analyze\<close> above, which follow the source.
\<close>

definition spec_avg_sentiment :: "real list \<Rightarrow> real" where
  "spec_avg_sentiment scores = sum_list scores / real (length scores)"

definition spec_base_confidence :: "real list \<Rightarrow> real" where
  "spec_base_confidence scores = 1 / (1 + exp (- 2.0 * spec_avg_sentiment scores))"

definition spec_reliability :: "nat \<Rightarrow> real" where
  "spec_reliability n = min 1 (ln (1 + real n) / ln 51)"

definition spec_final_confidence :: "real list \<Rightarrow> real" where
  "spec_final_confidence scores =
     0.5 + (spec_base_confidence scores - 0.5) * spec_reliability (length scores)"

text \<open>
  The number of places of a text at which a word starts: the occurrences of the word in
  the text, as the specification counts them.
\<close>

fun spec_occurrences :: "string \<Rightarrow> string \<Rightarrow> nat" where
  "spec_occurrences [] word = (if word = [] then 1 else 0)"
| "spec_occurrences (c # cs) word =
     (if startswith (c # cs) word then 1 else 0) + spec_occurrences cs word"

section \<open>The baseline tracker\<close>

lemma get_cumulative_change_None:
  "BASELINE_PRICES st symbol = None \<Longrightarrow>
   get_cumulative_change symbol p st =
     (Inr 0, st\<lparr>BASELINE_PRICES := (BASELINE_PRICES st)(symbol \<mapsto> p)\<rparr>)"
  by (simp add: get_cumulative_change_def)

lemma get_cumulative_change_Some:
  "BASELINE_PRICES st symbol = Some b \<Longrightarrow>
   get_cumulative_change symbol p st =
     (if b = 0 then Inl ZeroDivisionError else Inr ((p - b) / b), st)"
  by (simp add: get_cumulative_change_def)

lemma sentiment_step_tracker:
  assumes "BASELINE_PRICES st symbol = Some b"
  shows "BASELINE_PRICES (snd (sentiment_step now prices symbol result st)) = BASELINE_PRICES st \<and>
         LAST_ALERT (snd (sentiment_step now prices symbol result st)) = LAST_ALERT st \<and>
         emitted (snd (sentiment_step now prices symbol result st)) = emitted st"
proof (cases result)
  case None
  then show ?thesis by (simp add: sentiment_step_def)
next
  case (Some r)
  then show ?thesis
    using assms by (simp add: sentiment_step_def get_cumulative_change_def Let_def)
qed

text \<open>
  Claim C10. When a baseline \<open>b\<close> is stored for the symbol, \<^verbatim>\<open>get_cumulative_change\<close>
  returns \<open>(p - b) / b\<close> and leaves every global as it was (for \<open>b = 0\<close> the division
  raises, and the globals are as they were all the same). When no baseline is stored, the
  call stores the current price as baseline and returns 0. \<^verbatim>\<open>reset_baseline\<close> stores the
  price as the symbol's baseline and the time under the symbol's alert key, and nothing
  else. The call made in the sentiment phase for a symbol with a stored baseline changes
  neither the baselines nor the alert times.
\<close>

theorem get_cumulative_change_frame:
  "(\<forall>b. BASELINE_PRICES st symbol = Some b \<longrightarrow>
      get_cumulative_change symbol p st =
        (if b = 0 then Inl ZeroDivisionError else Inr ((p - b) / b), st)) \<and>
   (BASELINE_PRICES st symbol = None \<longrightarrow>
      get_cumulative_change symbol p st =
        (Inr 0, st\<lparr>BASELINE_PRICES := (BASELINE_PRICES st)(symbol \<mapsto> p)\<rparr>)) \<and>
   BASELINE_PRICES (reset_baseline now symbol p st) = (BASELINE_PRICES st)(symbol \<mapsto> p) \<and>
   LAST_ALERT (reset_baseline now symbol p st) = (LAST_ALERT st)(''price_'' @ symbol \<mapsto> now) \<and>
   LATEST_ANALYSIS (reset_baseline now symbol p st) = LATEST_ANALYSIS st \<and>
   emitted (reset_baseline now symbol p st) = emitted st \<and>
   (\<forall>b. BASELINE_PRICES st symbol = Some b \<longrightarrow>
      BASELINE_PRICES (snd (sentiment_step now prices symbol result st)) = BASELINE_PRICES st \<and>
      LAST_ALERT (snd (sentiment_step now prices symbol result st)) = LAST_ALERT st \<and>
      emitted (snd (sentiment_step now prices symbol result st)) = emitted st)"
  using sentiment_step_tracker [of st symbol _ now prices result]
  by (simp add: get_cumulative_change_None get_cumulative_change_Some reset_baseline_def)

text \<open>
  With baseline 100 stored, a price of 100.6 gives the change 0.006 and the same globals;
  on the initial globals, a price of 100 is stored as baseline and the change is 0.
\<close>

theorem get_cumulative_change_frame_witness:
  "get_cumulative_change ''AAPL'' (503 / 5)
     \<lparr>LAST_ALERT = Map.empty, BASELINE_PRICES = [''AAPL'' \<mapsto> 100],
      LATEST_ANALYSIS = Map.empty, emitted = []\<rparr> =
   (Inr (3 / 500),
     \<lparr>LAST_ALERT = Map.empty, BASELINE_PRICES = [''AAPL'' \<mapsto> 100],
      LATEST_ANALYSIS = Map.empty, emitted = []\<rparr>) \<and>
   get_cumulative_change ''AAPL'' 100 initial_state =
   (Inr 0, \<lparr>LAST_ALERT = Map.empty, BASELINE_PRICES = [''AAPL'' \<mapsto> 100],
      LATEST_ANALYSIS = Map.empty, emitted = []\<rparr>)"
  using get_cumulative_change_frame [of "\<lparr>LAST_ALERT = Map.empty,
      BASELINE_PRICES = [''AAPL'' \<mapsto> 100], LATEST_ANALYSIS = Map.empty, emitted = []\<rparr>"
      "''AAPL''" "503 / 5"]
    get_cumulative_change_frame [of initial_state "''AAPL''" 100]
  by (simp add: initial_state_def)

text \<open>
  Claim C5. For a symbol with a stored baseline \<open>b\<close> and a quote with price \<open>p\<close>, the
  price phase emits an alert exactly when \<open>\<bar>(p - b) / b\<bar>\<close> reaches the threshold,
  whatever the sign of the move. The alert says \<^verbatim>\<open>up\<close> when the change is positive and
  \<^verbatim>\<open>down\<close> otherwise, and carries values rounded to two decimals; the baseline stored
  afterwards is \<open>p\<close> itself. Without an alert nothing changes. Where the quotient does not
  exist, for \<open>b = 0\<close>, the division raises and nothing changes.
\<close>

theorem price_step_alert:
  assumes "BASELINE_PRICES st symbol = Some b"
  shows "price_step now threshold (symbol, pd) st =
     (if b = 0 then (Some ZeroDivisionError, st)
      else if threshold \<le> \<bar>(price pd - b) / b\<bar>
      then (None, st\<lparr>emitted := emitted st @
               [\<lparr>alert_type = ''price'', alert_symbol = symbol,
                 alert_direction = (if 0 < (price pd - b) / b then ''up'' else ''down''),
                 alert_change_pct = py_round ((price pd - b) / b * 100) 2,
                 alert_price = py_round (price pd) 2,
                 alert_prev_close = py_round b 2,
                 alert_ts = now,
                 alert_trading_date = trading_date pd\<rparr>],
             BASELINE_PRICES := (BASELINE_PRICES st)(symbol \<mapsto> price pd),
             LAST_ALERT := (LAST_ALERT st)(''price_'' @ symbol \<mapsto> now)\<rparr>)
      else (None, st))"
  using assms
  by (simp add: price_step_def get_cumulative_change_Some should_alert_price_def
      emit_def reset_baseline_def Let_def)

text \<open>
  Baseline 100, price 100.604, threshold 0.005: the alert says \<^verbatim>\<open>up\<close> with the price
  100.6, and the new baseline is 100.604.
\<close>

theorem price_step_alert_witness:
  "BASELINE_PRICES (snd (price_step 0 (1 / 200)
      (''AAPL'', \<lparr>price = 25151 / 250, trading_date = ''2024-01-02 Tue'', is_live = False\<rparr>)
      \<lparr>LAST_ALERT = Map.empty, BASELINE_PRICES = [''AAPL'' \<mapsto> 100],
       LATEST_ANALYSIS = Map.empty, emitted = []\<rparr>)) ''AAPL'' = Some (25151 / 250) \<and>
   map alert_price (emitted (snd (price_step 0 (1 / 200)
      (''AAPL'', \<lparr>price = 25151 / 250, trading_date = ''2024-01-02 Tue'', is_live = False\<rparr>)
      \<lparr>LAST_ALERT = Map.empty, BASELINE_PRICES = [''AAPL'' \<mapsto> 100],
       LATEST_ANALYSIS = Map.empty, emitted = []\<rparr>))) = [503 / 5] \<and>
   map alert_direction (emitted (snd (price_step 0 (1 / 200)
      (''AAPL'', \<lparr>price = 25151 / 250, trading_date = ''2024-01-02 Tue'', is_live = False\<rparr>)
      \<lparr>LAST_ALERT = Map.empty, BASELINE_PRICES = [''AAPL'' \<mapsto> 100],
       LATEST_ANALYSIS = Map.empty, emitted = []\<rparr>))) = [''up'']"
  using price_step_alert [of "\<lparr>LAST_ALERT = Map.empty, BASELINE_PRICES = [''AAPL'' \<mapsto> 100],
       LATEST_ANALYSIS = Map.empty, emitted = []\<rparr>" "''AAPL''" 100 0 "1 / 200"
       "\<lparr>price = 25151 / 250, trading_date = ''2024-01-02 Tue'', is_live = False\<rparr>"]
  by (simp add: py_round_def Let_def)

text \<open>
  Claim C1. The price phase visits only the symbols that have a quote, but the sentiment
  phase calls \<^verbatim>\<open>get_cumulative_change\<close> with the price 0 for a symbol without one. First
  cycle: no quote for AAPL and one headline, on the initial globals; the cycle ends
  normally and leaves the baseline 0 for AAPL. Second cycle: a quote of 100 for AAPL; the
  price phase divides by the baseline and the cycle ends with \<^verbatim>\<open>ZeroDivisionError\<close>.
\<close>

theorem zero_baseline_division:
  "fst (run_cycle_async
         \<lparr>WATCH = [''AAPL''], PRICE_THRESH = 1 / 200, BUY_THRESH = 13 / 20, SELL_THRESH = 7 / 20\<rparr>
         (\<lambda>t. 0) 0 [] (\<lambda>s. [''headline'']) (\<lambda>s. []) initial_state) = None \<and>
   BASELINE_PRICES (snd (run_cycle_async
         \<lparr>WATCH = [''AAPL''], PRICE_THRESH = 1 / 200, BUY_THRESH = 13 / 20, SELL_THRESH = 7 / 20\<rparr>
         (\<lambda>t. 0) 0 [] (\<lambda>s. [''headline'']) (\<lambda>s. []) initial_state)) ''AAPL'' = Some 0 \<and>
   fst (run_cycle_async
         \<lparr>WATCH = [''AAPL''], PRICE_THRESH = 1 / 200, BUY_THRESH = 13 / 20, SELL_THRESH = 7 / 20\<rparr>
         (\<lambda>t. 0) 15
         [(''AAPL'', \<lparr>price = 100, trading_date = ''2024-01-02 Tue'', is_live = False\<rparr>)]
         (\<lambda>s. [''headline'']) (\<lambda>s. [])
         (snd (run_cycle_async
           \<lparr>WATCH = [''AAPL''], PRICE_THRESH = 1 / 200, BUY_THRESH = 13 / 20, SELL_THRESH = 7 / 20\<rparr>
           (\<lambda>t. 0) 0 [] (\<lambda>s. [''headline'']) (\<lambda>s. []) initial_state))) =
     Some ZeroDivisionError"
  by (simp add: run_cycle_async_def analyze_def batch_score_texts_def sentiment_step_def
      get_cumulative_change_def price_step_def initial_state_def Let_def)

section \<open>The sentiment phase and the stored snapshots\<close>

lemma analyze_None_iff:
  "analyze symbol news_titles reddit_texts mdl buy sell = None \<longleftrightarrow>
     news_titles = [] \<and> reddit_texts = []"
  by (simp add: analyze_def batch_score_texts_def Let_def)

lemma price_step_LATEST_ANALYSIS:
  "LATEST_ANALYSIS (snd (price_step now threshold item st)) = LATEST_ANALYSIS st"
  by (simp add: price_step_def get_cumulative_change_def emit_def reset_baseline_def Let_def
      split: option.splits sum.splits prod.splits)

lemma price_alerts_LATEST_ANALYSIS:
  "LATEST_ANALYSIS (snd (price_alerts now threshold items st)) = LATEST_ANALYSIS st"
proof (induction items arbitrary: st)
  case Nil
  show ?case by simp
next
  case (Cons item items)
  obtain e st1 where step: "price_step now threshold item st = (e, st1)"
    by (cases "price_step now threshold item st")
  have "LATEST_ANALYSIS st1 = LATEST_ANALYSIS st"
    using price_step_LATEST_ANALYSIS [of now threshold item st] step by simp
  then show ?case
    using step Cons.IH [of st1] by (cases e) simp_all
qed

lemma sentiment_step_other:
  "symbol' \<noteq> symbol \<Longrightarrow>
   LATEST_ANALYSIS (snd (sentiment_step now prices symbol' result st)) symbol =
     LATEST_ANALYSIS st symbol"
  by (simp add: sentiment_step_def get_cumulative_change_def Let_def
      split: option.splits sum.splits prod.splits)

lemma sentiment_updates_untouched:
  "list_all (\<lambda>(s, r). s \<noteq> symbol \<or> r = None) results \<Longrightarrow>
   LATEST_ANALYSIS (snd (sentiment_updates now prices results st)) symbol =
     LATEST_ANALYSIS st symbol"
proof (induction results arbitrary: st)
  case Nil
  show ?case by simp
next
  case (Cons sr results)
  obtain s r where sr: "sr = (s, r)" by (cases sr)
  obtain e st1 where step: "sentiment_step now prices s r st = (e, st1)"
    by (cases "sentiment_step now prices s r st")
  have here: "s \<noteq> symbol \<or> r = None" and rest: "list_all (\<lambda>(s, r). s \<noteq> symbol \<or> r = None) results"
    using Cons.prems sr by simp_all
  have "LATEST_ANALYSIS st1 symbol = LATEST_ANALYSIS st symbol"
  proof (cases "r = None")
    case True
    then show ?thesis using step by (simp add: sentiment_step_def)
  next
    case False
    then have "s \<noteq> symbol" using here by blast
    then show ?thesis using sentiment_step_other [of s symbol now prices r st] step by simp
  qed
  then show ?case
    using sr step Cons.IH [OF rest, of st1] by (cases e) simp_all
qed

lemma scores_empty_iff:
  "batch_score_texts mdl news_titles @ batch_score_texts mdl reddit_texts = [] \<longleftrightarrow>
     news_titles = [] \<and> reddit_texts = []"
  by (simp add: batch_score_texts_def)

text \<open>
  Claim C7. When the combined score list for a call is empty, \<^verbatim>\<open>analyze\<close> returns
  \<^verbatim>\<open>None\<close>. The loop body of the sentiment phase does nothing at all for a result
  \<^verbatim>\<open>None\<close>. When the scores of a symbol are empty in a cycle, the entry of
  \<^verbatim>\<open>LATEST_ANALYSIS\<close> for the symbol is after the cycle what it was before, whether the
  cycle ends normally or with an exception.
\<close>

theorem empty_scores_leave_snapshot:
  "(batch_score_texts mdl news_titles @ batch_score_texts mdl reddit_texts = [] \<longrightarrow>
      analyze symbol news_titles reddit_texts mdl buy sell = None) \<and>
   sentiment_step now prices symbol None st = (None, st) \<and>
   (batch_score_texts mdl (get_news symbol) @ batch_score_texts mdl (get_reddit symbol) = [] \<longrightarrow>
      LATEST_ANALYSIS (snd (run_cycle_async cfg mdl now prices get_news get_reddit st)) symbol =
        LATEST_ANALYSIS st symbol)"
proof (intro conjI impI)
  assume "batch_score_texts mdl news_titles @ batch_score_texts mdl reddit_texts = []"
  then show "analyze symbol news_titles reddit_texts mdl buy sell = None"
    by (simp only: scores_empty_iff analyze_None_iff)
next
  show "sentiment_step now prices symbol None st = (None, st)"
    by (simp add: sentiment_step_def)
next
  assume "batch_score_texts mdl (get_news symbol) @ batch_score_texts mdl (get_reddit symbol) = []"
  then have empty: "get_news symbol = [] \<and> get_reddit symbol = []"
    by (simp only: scores_empty_iff)
  let ?results = "map (\<lambda>symbol. (symbol,
        analyze symbol (get_news symbol) (get_reddit symbol) mdl
          (BUY_THRESH cfg) (SELL_THRESH cfg))) (WATCH cfg)"
  have none: "list_all (\<lambda>(s, r). s \<noteq> symbol \<or> r = None) ?results"
    using empty by (simp add: list_all_iff analyze_None_iff)
  obtain e st1 where pa: "price_alerts now (PRICE_THRESH cfg) prices st = (e, st1)"
    by (cases "price_alerts now (PRICE_THRESH cfg) prices st")
  have st1: "LATEST_ANALYSIS st1 = LATEST_ANALYSIS st"
    using price_alerts_LATEST_ANALYSIS [of now "PRICE_THRESH cfg" prices st] pa by simp
  show "LATEST_ANALYSIS (snd (run_cycle_async cfg mdl now prices get_news get_reddit st)) symbol =
        LATEST_ANALYSIS st symbol"
  proof (cases e)
    case None
    then show ?thesis
      using pa st1 sentiment_updates_untouched [OF none, of now prices st1]
      by (simp add: run_cycle_async_def)
  next
    case (Some err)
    then show ?thesis using pa st1 by (simp add: run_cycle_async_def)
  qed
qed

text \<open>
  AAPL has a snapshot from an earlier cycle and no texts in this one, MSFT has one
  headline: after the cycle the snapshot of AAPL is the earlier one.
\<close>

theorem empty_scores_leave_snapshot_witness:
  "analyze ''AAPL'' [] [] (\<lambda>t. 0) (13 / 20) (7 / 20) = None \<and>
   LATEST_ANALYSIS (snd (run_cycle_async
       \<lparr>WATCH = [''AAPL'', ''MSFT''], PRICE_THRESH = 1 / 200, BUY_THRESH = 13 / 20,
        SELL_THRESH = 7 / 20\<rparr>
       (\<lambda>t. 0) 15 [] (\<lambda>s. if s = ''MSFT'' then [''headline''] else []) (\<lambda>s. [])
       \<lparr>LAST_ALERT = Map.empty, BASELINE_PRICES = [''AAPL'' \<mapsto> 100],
        LATEST_ANALYSIS = [''AAPL'' \<mapsto>
          \<lparr>snap_decision = ''BUY'', snap_confidence = 70, snap_price = Some 100,
           snap_change_from_baseline = 0, snap_news_count = 4, snap_reddit_count = 0,
           snap_positive = 4, snap_negative = 0, snap_avg_sentiment = 9 / 10,
           snap_news_topics = [], snap_reddit_topics = [], snap_sample_titles = [],
           snap_last_updated = 0\<rparr>],
        emitted = []\<rparr>)) ''AAPL'' =
     Some \<lparr>snap_decision = ''BUY'', snap_confidence = 70, snap_price = Some 100,
           snap_change_from_baseline = 0, snap_news_count = 4, snap_reddit_count = 0,
           snap_positive = 4, snap_negative = 0, snap_avg_sentiment = 9 / 10,
           snap_news_topics = [], snap_reddit_topics = [], snap_sample_titles = [],
           snap_last_updated = 0\<rparr>"
  using empty_scores_leave_snapshot [where mdl = "\<lambda>t. 0" and news_titles = "[]"
      and reddit_texts = "[]" and symbol = "''AAPL''" and buy = "13 / 20" and sell = "7 / 20"
      and get_news = "\<lambda>s. if s = ''MSFT'' then [''headline''] else []"
      and get_reddit = "\<lambda>s. []"
      and cfg = "\<lparr>WATCH = [''AAPL'', ''MSFT''], PRICE_THRESH = 1 / 200, BUY_THRESH = 13 / 20,
        SELL_THRESH = 7 / 20\<rparr>" and now = 15 and prices = "[]"
      and st = "\<lparr>LAST_ALERT = Map.empty, BASELINE_PRICES = [''AAPL'' \<mapsto> 100],
        LATEST_ANALYSIS = [''AAPL'' \<mapsto>
          \<lparr>snap_decision = ''BUY'', snap_confidence = 70, snap_price = Some 100,
           snap_change_from_baseline = 0, snap_news_count = 4, snap_reddit_count = 0,
           snap_positive = 4, snap_negative = 0, snap_avg_sentiment = 9 / 10,
           snap_news_topics = [], snap_reddit_topics = [], snap_sample_titles = [],
           snap_last_updated = 0\<rparr>],
        emitted = []\<rparr>"]
  by (simp add: batch_score_texts_def)

section \<open>Confidence and decision\<close>

lemma final_confidence_spec: "final_confidence scores = spec_final_confidence scores"
  by (simp add: final_confidence_def spec_final_confidence_def spec_base_confidence_def
      spec_reliability_def spec_avg_sentiment_def sigmoid_def Let_def)

lemma ln_51_pos: "0 < ln (51::real)"
  by simp

lemma spec_reliability_le_1: "spec_reliability n \<le> 1"
  by (simp add: spec_reliability_def)

lemma spec_reliability_pos: "1 \<le> n \<Longrightarrow> 0 < spec_reliability n"
  by (simp add: spec_reliability_def)

lemma spec_reliability_below_50:
  "n \<le> 50 \<Longrightarrow> spec_reliability n = ln (1 + real n) / ln 51"
proof -
  assume "n \<le> 50"
  then have "1 + real n \<le> 51" by simp
  then have "ln (1 + real n) \<le> ln 51" by simp
  then have "ln (1 + real n) / ln 51 \<le> 1" by simp
  then show ?thesis by (simp add: spec_reliability_def)
qed

lemma spec_reliability_from_50: "50 \<le> n \<Longrightarrow> spec_reliability n = 1"
proof -
  assume "50 \<le> n"
  then have "51 \<le> 1 + real n" by simp
  then have "ln 51 \<le> ln (1 + real n)" by simp
  then have "1 \<le> ln (1 + real n) / ln 51" by simp
  then show ?thesis by (simp add: spec_reliability_def)
qed

lemma spec_reliability_strict_mono:
  assumes "n1 < n2" and "n2 \<le> 50"
  shows "spec_reliability n1 < spec_reliability n2"
proof -
  have "1 + real n1 < 1 + real n2" using assms by simp
  then have "ln (1 + real n1) < ln (1 + real n2)" by simp
  then have "ln (1 + real n1) / ln 51 < ln (1 + real n2) / ln 51"
    using ln_51_pos by (simp add: divide_strict_right_mono)
  then show ?thesis
    using assms by (simp add: spec_reliability_below_50)
qed

lemma sigmoid_gt_iff:
  "c < sigmoid x \<longleftrightarrow> c * (1 + exp (- x)) < 1"
proof -
  have "0 < 1 + exp (- x)" by (simp add: add_pos_pos)
  then show ?thesis
    unfolding sigmoid_def by (simp add: pos_less_divide_eq)
qed

lemma sigmoid_lt_iff:
  "sigmoid x < c \<longleftrightarrow> 1 < c * (1 + exp (- x))"
proof -
  have "0 < 1 + exp (- x)" by (simp add: add_pos_pos)
  then show ?thesis
    unfolding sigmoid_def by (simp add: pos_divide_less_eq)
qed

lemma sigmoid_gt_half: "0 < x \<Longrightarrow> 1 / 2 < sigmoid x"
  using sigmoid_gt_iff [of "1 / 2" x] by simp

lemma sigmoid_lt_half: "x < 0 \<Longrightarrow> sigmoid x < 1 / 2"
  using sigmoid_lt_iff [of x "1 / 2"] by simp

lemma sigmoid_lt_1: "sigmoid x < 1"
  using sigmoid_lt_iff [of x 1] by simp

lemma sigmoid_8_5: "3 / 4 < sigmoid (8 / 5)"
proof -
  have "1 + (8 / 5) + (8 / 5)\<^sup>2 / 2 \<le> exp (8 / 5 :: real)"
    by (rule exp_lower_Taylor_quadratic) simp
  then have "3 < exp (8 / 5 :: real)" by (simp add: power2_eq_square)
  then have "exp (- (8 / 5) :: real) < 1 / 3"
    by (simp add: exp_minus field_simps)
  then show ?thesis
    using sigmoid_gt_iff [of "3 / 4" "8 / 5"] by simp
qed

lemma ln_3_51: "ln 3 / ln 51 < (1 / 2 :: real)"
proof -
  have "ln (3 * 3 :: real) = ln 3 + ln 3" by (rule ln_mult_pos) simp_all
  moreover have "ln (9 :: real) < ln 51" by simp
  ultimately have "2 * ln (3::real) < ln 51" by simp
  then show ?thesis using ln_51_pos by (simp add: field_simps)
qed

lemma final_confidence_shape:
  "final_confidence xs =
     1 / 2 + (sigmoid (2 * (sum_list xs / real (length xs))) - 1 / 2) * spec_reliability (length xs)"
  by (simp add: final_confidence_def spec_reliability_def Let_def)

lemma final_confidence_pair: "final_confidence [4 / 5, 9 / 10] < 3 / 4"
proof -
  have eq: "final_confidence [4 / 5, 9 / 10] =
      1 / 2 + (sigmoid (17 / 10) - 1 / 2) * (ln 3 / ln 51)"
    by (simp add: final_confidence_shape spec_reliability_below_50)
  have s: "sigmoid (17 / 10) - 1 / 2 < 1 / 2"
    using sigmoid_lt_1 [of "17 / 10"] by simp
  have "(sigmoid (17 / 10) - 1 / 2) * (ln 3 / ln 51) < (1 / 2) * (1 / 2)"
    using mult_strict_mono [OF s ln_3_51] ln_51_pos by simp
  then show ?thesis
    unfolding eq by simp
qed

lemma final_confidence_fifty: "final_confidence (replicate 50 (4 / 5)) = sigmoid (8 / 5)"
  by (simp add: final_confidence_shape spec_reliability_from_50 sum_list_replicate)


lemma final_confidence_zero: "final_confidence [0] = 1 / 2"
  by (simp add: final_confidence_shape sigmoid_def)

lemma toward_half:
  assumes "xs \<noteq> []" and "length xs < length ys" and "length ys \<le> 50"
    and "sum_list xs / real (length xs) = a" and "sum_list ys / real (length ys) = a"
  shows "0 < a \<Longrightarrow> 1 / 2 < final_confidence xs \<and> final_confidence xs < final_confidence ys \<and>
           final_confidence ys \<le> sigmoid (2 * a)"
    and "a < 0 \<Longrightarrow> sigmoid (2 * a) \<le> final_confidence ys \<and> final_confidence ys < final_confidence xs \<and>
           final_confidence xs < 1 / 2"
proof -
  define d where "d = sigmoid (2 * a) - 1 / 2"
  define r1 where "r1 = spec_reliability (length xs)"
  define r2 where "r2 = spec_reliability (length ys)"
  have "1 \<le> length xs" using assms(1) by (cases xs) simp_all
  then have r1: "0 < r1" unfolding r1_def by (rule spec_reliability_pos)
  have r12: "r1 < r2" unfolding r1_def r2_def using assms(2,3) by (rule spec_reliability_strict_mono)
  have r2: "r2 \<le> 1" unfolding r2_def by (rule spec_reliability_le_1)
  have fx: "final_confidence xs = 1 / 2 + d * r1"
    by (simp add: final_confidence_shape assms(4) d_def r1_def)
  have fy: "final_confidence ys = 1 / 2 + d * r2"
    by (simp add: final_confidence_shape assms(5) d_def r2_def)
  have s: "sigmoid (2 * a) = 1 / 2 + d" by (simp add: d_def)
  {
    assume "0 < a"
    then have d: "0 < d" using sigmoid_gt_half [of "2 * a"] by (simp add: d_def)
    have "0 < d * r1" using d r1 by simp
    moreover have "d * r1 < d * r2" using d r12 by simp
    moreover have "d * r2 \<le> d * 1" using d r2 by (intro mult_left_mono) simp_all
    ultimately show "1 / 2 < final_confidence xs \<and> final_confidence xs < final_confidence ys \<and>
           final_confidence ys \<le> sigmoid (2 * a)"
      by (simp add: fx fy s)
  }
  {
    assume "a < 0"
    then have d: "d < 0" using sigmoid_lt_half [of "2 * a"] by (simp add: d_def)
    have "d * r1 < 0" using d r1 by (simp add: mult_neg_pos)
    moreover have "d * r2 < d * r1" using d r12 by simp
    moreover have "d * 1 \<le> d * r2" using d r2 by (intro mult_left_mono_neg) simp_all
    ultimately show "sigmoid (2 * a) \<le> final_confidence ys \<and> final_confidence ys < final_confidence xs \<and>
           final_confidence xs < 1 / 2"
      by (simp add: fx fy s)
  }
qed

lemma saturated:
  "50 \<le> length ys \<Longrightarrow> final_confidence ys = sigmoid (2 * (sum_list ys / real (length ys)))"
  by (simp add: final_confidence_shape spec_reliability_from_50)

text \<open>
  Claim C2. For a non-empty score list the source's \<open>final_confidence\<close> is the value the
  specification's four formulas give, and \<^verbatim>\<open>analyze\<close> reports it (times 100, rounded to one
  decimal) together with the rounded mean. The reliability lies in (0, 1] and multiplies
  the deviation of the base confidence from 1/2, so the final confidence is never further
  from 1/2 than the base confidence.
\<close>

theorem analyze_confidence_formula:
  assumes "all_scores = batch_score_texts mdl news_titles @ batch_score_texts mdl reddit_texts"
    and "all_scores \<noteq> []"
  shows "final_confidence all_scores = spec_final_confidence all_scores \<and>
    (\<exists>r. analyze symbol news_titles reddit_texts mdl buy sell = Some r \<and>
         confidence r = py_round (spec_final_confidence all_scores * 100) 1 \<and>
         avg_sentiment r = py_round (spec_avg_sentiment all_scores) 3) \<and>
    final_confidence all_scores - 1 / 2 =
      (spec_base_confidence all_scores - 1 / 2) * spec_reliability (length all_scores) \<and>
    0 < spec_reliability (length all_scores) \<and> spec_reliability (length all_scores) \<le> 1 \<and>
    \<bar>final_confidence all_scores - 1 / 2\<bar> \<le> \<bar>spec_base_confidence all_scores - 1 / 2\<bar>"
proof -
  have n: "1 \<le> length all_scores" using assms(2) by (cases all_scores) simp_all
  have pos: "0 < spec_reliability (length all_scores)" using n by (rule spec_reliability_pos)
  have le: "spec_reliability (length all_scores) \<le> 1" by (rule spec_reliability_le_1)
  have dev: "final_confidence all_scores - 1 / 2 =
      (spec_base_confidence all_scores - 1 / 2) * spec_reliability (length all_scores)"
    by (simp add: final_confidence_spec spec_final_confidence_def)
  have "\<bar>spec_base_confidence all_scores - 1 / 2\<bar> * spec_reliability (length all_scores)
        \<le> \<bar>spec_base_confidence all_scores - 1 / 2\<bar> * 1"
    using le by (intro mult_left_mono) simp_all
  then have damp: "\<bar>final_confidence all_scores - 1 / 2\<bar> \<le> \<bar>spec_base_confidence all_scores - 1 / 2\<bar>"
    using pos by (simp add: dev abs_mult)
  have "analyze symbol news_titles reddit_texts mdl buy sell =
      Some (the (analyze symbol news_titles reddit_texts mdl buy sell)) \<and>
      confidence (the (analyze symbol news_titles reddit_texts mdl buy sell)) =
        py_round (spec_final_confidence all_scores * 100) 1 \<and>
      avg_sentiment (the (analyze symbol news_titles reddit_texts mdl buy sell)) =
        py_round (spec_avg_sentiment all_scores) 3"
    using assms(2) unfolding assms(1)
    by (auto simp add: analyze_def Let_def final_confidence_spec spec_avg_sentiment_def)
  then have res: "\<exists>r. analyze symbol news_titles reddit_texts mdl buy sell = Some r \<and>
         confidence r = py_round (spec_final_confidence all_scores * 100) 1 \<and>
         avg_sentiment r = py_round (spec_avg_sentiment all_scores) 3"
    by blast
  show ?thesis
    using final_confidence_spec [of all_scores] res dev pos le damp by blast
qed

text \<open>One headline with score 1/2: the mean is 1/2 and the reliability is ln 2 / ln 51.\<close>

theorem analyze_confidence_formula_witness:
  "final_confidence [1 / 2] = 1 / 2 + (1 / (1 + exp (- 1)) - 1 / 2) * (ln 2 / ln 51) \<and>
   (\<exists>r. analyze ''AAPL'' [''headline''] [] (\<lambda>t. 1 / 2) (13 / 20) (7 / 20) = Some r \<and>
        avg_sentiment r = 1 / 2)"
proof -
  have scores: "[1 / 2] = batch_score_texts (\<lambda>t. 1 / 2) [''headline''] @ batch_score_texts (\<lambda>t. 1 / 2) []"
    by (simp add: batch_score_texts_def)
  have ne: "[1 / 2 :: real] \<noteq> []" by simp
  note th = analyze_confidence_formula [OF scores ne, of "''AAPL''" "13 / 20" "7 / 20"]
  have a: "py_round (spec_avg_sentiment [1 / 2]) 3 = 1 / 2"
    by (simp add: spec_avg_sentiment_def py_round_def)
  have f: "spec_final_confidence [1 / 2] = 1 / 2 + (1 / (1 + exp (- 1)) - 1 / 2) * (ln 2 / ln 51)"
    by (simp add: spec_final_confidence_def spec_base_confidence_def spec_avg_sentiment_def
        spec_reliability_below_50)
  show ?thesis using th unfolding a f by blast
qed

text \<open>
  Claim C6. For a non-empty score list \<^verbatim>\<open>analyze\<close> returns a result whose decision is
  \<^verbatim>\<open>BUY\<close> exactly when the final confidence is at least \<open>buy\<close>, \<^verbatim>\<open>SELL\<close> exactly when
  it is below \<open>buy\<close> and at most \<open>sell\<close>, and \<^verbatim>\<open>HOLD\<close> exactly when it is below
  \<open>buy\<close> and above \<open>sell\<close>.
\<close>

theorem analyze_decision:
  assumes "all_scores = batch_score_texts mdl news_titles @ batch_score_texts mdl reddit_texts"
    and "all_scores \<noteq> []"
  shows "\<exists>r. analyze symbol news_titles reddit_texts mdl buy sell = Some r \<and>
    (decision r = ''BUY'' \<longleftrightarrow> buy \<le> final_confidence all_scores) \<and>
    (decision r = ''SELL'' \<longleftrightarrow>
       final_confidence all_scores < buy \<and> final_confidence all_scores \<le> sell) \<and>
    (decision r = ''HOLD'' \<longleftrightarrow>
       final_confidence all_scores < buy \<and> sell < final_confidence all_scores)"
  using assms(2) unfolding assms(1) by (auto simp add: analyze_def Let_def)

text \<open>
  One headline with score 0 has final confidence 1/2: with \<open>buy = sell = 1/2\<close> the
  decision is \<^verbatim>\<open>BUY\<close>, with \<open>buy = 0.65\<close> and \<open>sell = 1/2\<close> it is \<^verbatim>\<open>SELL\<close>, with the
  default thresholds it is \<^verbatim>\<open>HOLD\<close>.
\<close>

theorem analyze_decision_witness:
  "(\<exists>r. analyze ''AAPL'' [''headline''] [] (\<lambda>t. 0) (1 / 2) (1 / 2) = Some r \<and>
        decision r = ''BUY'') \<and>
   (\<exists>r. analyze ''AAPL'' [''headline''] [] (\<lambda>t. 0) (13 / 20) (1 / 2) = Some r \<and>
        decision r = ''SELL'') \<and>
   (\<exists>r. analyze ''AAPL'' [''headline''] [] (\<lambda>t. 0) (13 / 20) (7 / 20) = Some r \<and>
        decision r = ''HOLD'')"
proof -
  have scores: "[0] = batch_score_texts (\<lambda>t. 0) [''headline''] @ batch_score_texts (\<lambda>t. 0) []"
    by (simp add: batch_score_texts_def)
  have ne: "[0 :: real] \<noteq> []" by simp
  note th = analyze_decision [OF scores ne, of "''AAPL''", unfolded final_confidence_zero]
  show ?thesis
    using th [of "1 / 2" "1 / 2"] th [of "13 / 20" "1 / 2"] th [of "13 / 20" "7 / 20"]
    by simp blast
qed


text \<open>
  Claim C8, as the source has it. For two score lists with the same mean \<open>a\<close> and lengths
  \<open>1 \<le> n1 < n2 \<le> 50\<close>, the final confidence of the shorter list lies strictly between
  1/2 and that of the longer one, which is at most \<open>sigmoid (2 a)\<close>, on the side of 1/2
  given by the sign of \<open>a\<close>. From 50 scores on the final confidence is \<open>sigmoid (2 a)\<close>.
  The scores 0.8, 0.9 have mean 0.85; their final confidence is below that of fifty scores
  of 0.8, which is \<open>sigmoid 1.6\<close> itself.
\<close>

theorem final_confidence_sample_count:
  "(xs \<noteq> [] \<and> length xs < length ys \<and> length ys \<le> 50 \<and>
    sum_list xs / real (length xs) = a \<and> sum_list ys / real (length ys) = a \<and> 0 < a \<longrightarrow>
      1 / 2 < final_confidence xs \<and> final_confidence xs < final_confidence ys \<and>
      final_confidence ys \<le> sigmoid (2 * a)) \<and>
   (xs \<noteq> [] \<and> length xs < length ys \<and> length ys \<le> 50 \<and>
    sum_list xs / real (length xs) = a \<and> sum_list ys / real (length ys) = a \<and> a < 0 \<longrightarrow>
      sigmoid (2 * a) \<le> final_confidence ys \<and> final_confidence ys < final_confidence xs \<and>
      final_confidence xs < 1 / 2) \<and>
   (50 \<le> length ys \<and> sum_list ys / real (length ys) = a \<longrightarrow>
      final_confidence ys = sigmoid (2 * a)) \<and>
   sum_list [4 / 5, 9 / 10] / real (length [4 / 5, 9 / 10 :: real]) = 17 / 20 \<and>
   final_confidence [4 / 5, 9 / 10] < final_confidence (replicate 50 (4 / 5)) \<and>
   final_confidence (replicate 50 (4 / 5)) = sigmoid (8 / 5)"
proof (intro conjI impI)
  show "final_confidence [4 / 5, 9 / 10] < final_confidence (replicate 50 (4 / 5))"
    using final_confidence_pair sigmoid_8_5 by (simp add: final_confidence_fifty)
  show "final_confidence (replicate 50 (4 / 5)) = sigmoid (8 / 5)"
    by (rule final_confidence_fifty)
qed (use toward_half [of xs ys a] saturated [of ys] in simp_all)

theorem final_confidence_sample_count_witness:
  "1 / 2 < final_confidence [4 / 5, 4 / 5] \<and>
   final_confidence [4 / 5, 4 / 5] < final_confidence (replicate 50 (4 / 5)) \<and>
   final_confidence (replicate 50 (- 4 / 5)) < final_confidence [- 4 / 5, - 4 / 5] \<and>
   final_confidence [- 4 / 5, - 4 / 5] < 1 / 2 \<and>
   final_confidence (replicate 51 (4 / 5)) = sigmoid (8 / 5)"
  using final_confidence_sample_count [of "[4 / 5, 4 / 5]" "replicate 50 (4 / 5)" "4 / 5"]
    final_confidence_sample_count [of "[- 4 / 5, - 4 / 5]" "replicate 50 (- 4 / 5)" "- 4 / 5"]
    final_confidence_sample_count [of "[]" "replicate 51 (4 / 5)" "4 / 5"]
  by (simp add: sum_list_replicate)

text \<open>
  Claim C8 as stated fails: the scores 0.8, 0.9 do not have the mean 0.8, fifty scores of
  0.8 do not stay strictly below \<open>sigmoid 1.6\<close>, and going from 51 to 50 scores does not
  move the final confidence.
\<close>

theorem saturation_counterexample:
  "sum_list [4 / 5, 9 / 10] / real (length [4 / 5, 9 / 10 :: real]) \<noteq> 4 / 5 \<and>
   \<not> final_confidence (replicate 50 (4 / 5)) < sigmoid (8 / 5) \<and>
   \<not> \<bar>final_confidence (replicate 50 (4 / 5)) - 1 / 2\<bar> < \<bar>final_confidence (replicate 51 (4 / 5)) - 1 / 2\<bar>"
  by (simp add: saturated sum_list_replicate)

section \<open>Topic extraction\<close>

subsection \<open>Counts, totals and key order of the counter\<close>

lemma counter_get_Nil: "counter_get [] w = 0"
  by (simp add: counter_get_def)

lemma counter_get_incr:
  "counter_get (counter_incr w cnt) k =
     (if k = w then counter_get cnt w + 1 else counter_get cnt k)"
  by (induction cnt) (auto simp add: counter_get_def)

lemma counter_get_count_words:
  "counter_get (count_words text_lower vocab cnt) w =
     counter_get cnt w + (if contains text_lower w then count_list vocab w else 0)"
  by (induction vocab arbitrary: cnt) (auto simp add: counter_get_incr)

lemma counter_get_count_texts:
  "counter_get (count_texts texts vocab cnt) w =
     counter_get cnt w +
     count_list vocab w * length (filter (\<lambda>text. contains (lower text) w) texts)"
  by (induction texts arbitrary: cnt) (auto simp add: counter_get_count_words)

lemma count_list_distinct: "distinct xs \<Longrightarrow> count_list xs x = (if x \<in> set xs then 1 else 0)"
  by (induction xs) auto

lemma sum_counter_incr: "sum_list (map snd (counter_incr w cnt)) = sum_list (map snd cnt) + 1"
  by (induction cnt) auto

lemma sum_count_words:
  "sum_list (map snd (count_words text_lower vocab cnt)) =
     sum_list (map snd cnt) + length (filter (\<lambda>word. contains text_lower word) vocab)"
  by (induction vocab arbitrary: cnt) (auto simp add: sum_counter_incr)

lemma sum_count_texts:
  "sum_list (map snd (count_texts texts vocab cnt)) =
     sum_list (map snd cnt) +
     sum_list (map (\<lambda>text. length (filter (\<lambda>word. contains (lower text) word) vocab)) texts)"
  by (induction texts arbitrary: cnt) (auto simp add: sum_count_words)

lemma keys_counter_incr:
  "map fst (counter_incr w cnt) =
     (if w \<in> set (map fst cnt) then map fst cnt else map fst cnt @ [w])"
  by (induction cnt) force+

lemma first_seen_snoc:
  "rev (remdups (rev (xs @ [w]))) =
     (if w \<in> set xs then rev (remdups (rev xs)) else rev (remdups (rev xs)) @ [w])"
  by simp

lemma keys_count_words:
  "map fst cnt = rev (remdups (rev hits)) \<Longrightarrow>
   map fst (count_words text_lower vocab cnt) =
     rev (remdups (rev (hits @ filter (\<lambda>word. contains text_lower word) vocab)))"
proof (induction vocab arbitrary: cnt hits)
  case Nil
  then show ?case by simp
next
  case (Cons word vocab)
  show ?case
  proof (cases "contains text_lower word")
    case True
    have "map fst (counter_incr word cnt) = rev (remdups (rev (hits @ [word])))"
      using Cons.prems by (simp add: keys_counter_incr)
    from Cons.IH [OF this] show ?thesis using True by simp
  next
    case False
    then show ?thesis using Cons.IH [OF Cons.prems] by simp
  qed
qed

lemma keys_count_texts:
  "map fst cnt = rev (remdups (rev hits)) \<Longrightarrow>
   map fst (count_texts texts vocab cnt) =
     rev (remdups (rev (hits @
       concat (map (\<lambda>text. filter (\<lambda>word. contains (lower text) word) vocab) texts))))"
proof (induction texts arbitrary: cnt hits)
  case Nil
  then show ?case by simp
next
  case (Cons t ts)
  have "map fst (count_words (lower t) vocab cnt) =
      rev (remdups (rev (hits @ filter (\<lambda>word. contains (lower t) word) vocab)))"
    using Cons.prems by (rule keys_count_words)
  from Cons.IH [OF this] show ?case by simp
qed

lemma distinct_keys_count_texts: "distinct (map fst (count_texts texts vocab []))"
  using keys_count_texts [of "[]" "[]" texts vocab] by simp

lemma counts_pos_incr:
  "list_all (\<lambda>(w, c). 0 < c) cnt \<Longrightarrow> list_all (\<lambda>(w, c). 0 < c) (counter_incr word cnt)"
  by (induction cnt) auto

lemma counts_pos_count_words:
  "list_all (\<lambda>(w, c). 0 < c) cnt \<Longrightarrow> list_all (\<lambda>(w, c). 0 < c) (count_words text_lower vocab cnt)"
  by (induction vocab arbitrary: cnt) (auto simp add: counts_pos_incr)

lemma counts_pos_count_texts:
  "list_all (\<lambda>(w, c). 0 < c) cnt \<Longrightarrow> list_all (\<lambda>(w, c). 0 < c) (count_texts texts vocab cnt)"
  by (induction texts arbitrary: cnt) (auto simp add: counts_pos_count_words)

lemma counter_get_member:
  "distinct (map fst cnt) \<Longrightarrow> (w, c) \<in> set cnt \<Longrightarrow> counter_get cnt w = c"
  by (simp add: counter_get_def)

lemma most_common_subset: "set (most_common n cnt) \<subseteq> set cnt"
  using set_take_subset [of n "sort_key (\<lambda>(word, count). - int count) cnt"]
  by (simp add: most_common_def)

lemma filter_eq_append_ConsD:
  "filter P xs = as @ x # rs \<Longrightarrow> \<exists>us vs. xs = us @ x # vs \<and> filter P vs = rs"
proof (induction xs arbitrary: as)
  case Nil
  then show ?case by simp
next
  case (Cons y ys)
  show ?case
  proof (cases "P y")
    case False
    with Cons.prems have "filter P ys = as @ x # rs" by simp
    from Cons.IH [OF this] obtain us vs where "ys = us @ x # vs" "filter P vs = rs" by blast
    then have "y # ys = (y # us) @ x # vs \<and> filter P vs = rs" by simp
    then show ?thesis by blast
  next
    case True
    show ?thesis
    proof (cases as)
      case Nil
      with True Cons.prems have "y = x" "filter P ys = rs" by simp_all
      then have "y # ys = [] @ x # ys \<and> filter P ys = rs" by simp
      then show ?thesis by blast
    next
      case (Cons a as')
      with True Cons.prems have "filter P ys = as' @ x # rs" by simp
      from Cons.IH [OF this] obtain us vs where "ys = us @ x # vs" "filter P vs = rs" by blast
      then have "y # ys = (y # us) @ x # vs \<and> filter P vs = rs" by simp
      then show ?thesis by blast
    qed
  qed
qed

lemma stable_order:
  fixes f :: "'a \<Rightarrow> int"
  assumes "sort_key f xs = as @ x # bs @ y # cs"
  shows "f x \<le> f y" and "f x = f y \<Longrightarrow> \<exists>us vs ws. xs = us @ x # vs @ y # ws"
proof -
  have "sorted (map f (sort_key f xs))" by simp
  then show "f x \<le> f y" unfolding assms by (simp add: sorted_append)
  assume eq: "f x = f y"
  have "filter (\<lambda>z. f z = f x) (sort_key f xs) = filter (\<lambda>z. f z = f x) xs"
    by (rule sort_key_stable)
  then have "filter (\<lambda>z. f z = f x) xs =
      filter (\<lambda>z. f z = f x) as @ x # (filter (\<lambda>z. f z = f x) bs @ y # filter (\<lambda>z. f z = f x) cs)"
    unfolding assms using eq by simp
  from filter_eq_append_ConsD [OF this] obtain us vs where
    xs: "xs = us @ x # vs" and
    vs: "filter (\<lambda>z. f z = f x) vs = filter (\<lambda>z. f z = f x) bs @ y # filter (\<lambda>z. f z = f x) cs"
    by blast
  from filter_eq_append_ConsD [OF vs] obtain us' vs' where "vs = us' @ y # vs'" by blast
  with xs have "xs = us @ x # us' @ y # vs'" by simp
  then show "\<exists>us vs ws. xs = us @ x # vs @ y # ws" by blast
qed

lemma most_common_order:
  assumes "(w, c) \<in> set (most_common n cnt)" and "(w', c') \<in> set cnt"
    and "(w', c') \<notin> set (most_common n cnt)"
  shows "c' \<le> c" and "c' = c \<Longrightarrow> \<exists>as bs cs. cnt = as @ (w, c) # bs @ (w', c') # cs"
proof -
  let ?f = "\<lambda>(word, count). - int count"
  let ?ys = "sort_key ?f cnt"
  have "(w', c') \<in> set (take n ?ys @ drop n ?ys)" using assms(2) by simp
  then have "(w', c') \<in> set (drop n ?ys)"
    using assms(3) unfolding most_common_def set_append by blast
  then obtain d1 d2 where d: "drop n ?ys = d1 @ (w', c') # d2" by (auto dest: split_list)
  from assms(1) obtain t1 t2 where t: "take n ?ys = t1 @ (w, c) # t2"
    unfolding most_common_def by (auto dest: split_list)
  have "?ys = take n ?ys @ drop n ?ys" by simp
  then have ys: "?ys = t1 @ (w, c) # (t2 @ d1) @ (w', c') # d2"
    unfolding t d by simp
  from stable_order(1) [OF ys] show "c' \<le> c" by simp
  assume "c' = c"
  then have "?f (w, c) = ?f (w', c')" by simp
  from stable_order(2) [OF ys this] show "\<exists>as bs cs. cnt = as @ (w, c) # bs @ (w', c') # cs" .
qed


subsection \<open>What a topic count counts\<close>

lemma vocab_distinct: "distinct news_vocab \<and> distinct reddit_vocab"
  by (simp add: news_vocab_def reddit_vocab_def)

lemma example_topics:
  "explain_topics [''Stock surge reported'', ''another surge'', ''price drop''] [''surge'', ''drop'']
     = [(''surge'', 667 / 1000), (''drop'', 333 / 1000)]"
  by (simp add: explain_topics_def most_common_def py_round_def lower_def lower_char_def Let_def)

text \<open>
  Claim C3, as the source has it. For a vocabulary without repetitions, the count of a
  vocabulary word is the number of texts whose lower-cased form contains the word: a text
  counts once however often the word occurs in it. A word outside the vocabulary has count
  0. The texts "Stock surge reported", "another surge", "price drop" with the vocabulary
  surge, drop give surge 0.667 and drop 0.333.
\<close>

theorem topic_count_is_text_count:
  "(distinct vocab \<and> word \<in> set vocab \<longrightarrow>
      counter_get (count_texts texts vocab []) word =
        length (filter (\<lambda>text. contains (lower text) word) texts)) \<and>
   (word \<notin> set vocab \<longrightarrow> counter_get (count_texts texts vocab []) word = 0) \<and>
   explain_topics [''Stock surge reported'', ''another surge'', ''price drop''] [''surge'', ''drop'']
     = [(''surge'', 667 / 1000), (''drop'', 333 / 1000)]"
  by (simp add: counter_get_count_texts counter_get_Nil count_list_distinct example_topics)

theorem topic_count_is_text_count_witness:
  "counter_get (count_texts [''Surge surge'', ''price drop''] [''surge'', ''drop''] []) ''surge'' = 1 \<and>
   counter_get (count_texts [''Surge surge'', ''price drop''] [''surge'', ''drop''] []) ''rally'' = 0"
  using topic_count_is_text_count [of "[''surge'', ''drop'']" "''surge''"
      "[''Surge surge'', ''price drop'']"]
    topic_count_is_text_count [of "[''surge'', ''drop'']" "''rally''"
      "[''Surge surge'', ''price drop'']"]
  by (simp add: lower_def lower_char_def)

text \<open>
  Claim C3 as stated fails: in the one text "surge surge" the word occurs twice and is
  counted once, so that with a second text "drop" both words get the frequency 1/2.
\<close>

theorem occurrence_count_counterexample:
  "counter_get (count_texts [''surge surge''] [''surge'', ''drop''] []) ''surge'' = 1 \<and>
   spec_occurrences (lower ''surge surge'') ''surge'' = 2 \<and>
   explain_topics [''surge surge'', ''drop''] [''surge'', ''drop''] =
     [(''surge'', 1 / 2), (''drop'', 1 / 2)]"
  by (simp add: explain_topics_def most_common_def py_round_def lower_def lower_char_def Let_def
      counter_get_def)

subsection \<open>What a frequency is relative to\<close>

lemma no_hits_empty:
  assumes "\<forall>text\<in>set texts. \<forall>w\<in>set vocab. \<not> contains (lower text) w"
  shows "count_texts texts vocab [] = []"
proof -
  have "concat (map (\<lambda>text. filter (\<lambda>word. contains (lower text) word) vocab) texts) = []"
    using assms by (simp add: filter_empty_conv)
  then have "map fst (count_texts texts vocab []) = []"
    using keys_count_texts [of "[]" "[]" texts vocab] by simp
  then show ?thesis by simp
qed

text \<open>
  Claim C4, as the source has it. For a vocabulary without repetitions, the frequency
  reported for a kept word is its count divided by the number of all pairs of a text and a
  vocabulary word contained in it, that is the sum of the counts of all words found, kept
  or not, rounded to three decimals. When no text contains a vocabulary word the result is
  empty.
\<close>

theorem topic_frequency_total:
  "(distinct vocab \<and> (word, f) \<in> set (explain_topics texts vocab) \<longrightarrow>
      f = py_round
            (real (length (filter (\<lambda>text. contains (lower text) word) texts)) /
             real (sum_list (map (\<lambda>text. length (filter (\<lambda>w. contains (lower text) w) vocab)) texts)))
            3) \<and>
   ((\<forall>text\<in>set texts. \<forall>w\<in>set vocab. \<not> contains (lower text) w) \<longrightarrow>
      explain_topics texts vocab = [])"
proof (intro conjI impI)
  assume "\<forall>text\<in>set texts. \<forall>w\<in>set vocab. \<not> contains (lower text) w"
  then show "explain_topics texts vocab = []"
    by (simp add: explain_topics_def most_common_def no_hits_empty)
next
  assume a: "distinct vocab \<and> (word, f) \<in> set (explain_topics texts vocab)"
  define cnt where "cnt = count_texts texts vocab []"
  define s where "s = sum_list (map snd cnt)"
  from a obtain c where top: "(word, c) \<in> set (most_common 5 cnt)"
    and f: "f = py_round (real c / real (if s = 0 then 1 else s)) 3"
    by (auto simp add: explain_topics_def Let_def cnt_def s_def)
  have mem: "(word, c) \<in> set cnt" using top most_common_subset by blast
  have "list_all (\<lambda>(w, c). 0 < c) cnt"
    unfolding cnt_def by (rule counts_pos_count_texts) simp
  then have pos: "0 < c" using mem by (auto simp add: list_all_iff)
  have "counter_get cnt word = c"
    using distinct_keys_count_texts mem unfolding cnt_def by (rule counter_get_member)
  then have c: "c = count_list vocab word * length (filter (\<lambda>text. contains (lower text) word) texts)"
    by (simp add: cnt_def counter_get_count_texts counter_get_Nil)
  then have "count_list vocab word \<noteq> 0" using pos by (cases "count_list vocab word") simp_all
  then have "count_list vocab word = 1"
    using a by (simp add: count_list_distinct split: if_splits)
  then have c': "c = length (filter (\<lambda>text. contains (lower text) word) texts)"
    using c by simp
  have "c \<in> set (map snd cnt)" using mem by force
  then have "c \<le> s" unfolding s_def by (simp add: member_le_sum_list)
  then have s0: "s \<noteq> 0" using pos by simp
  have f': "f = py_round (real c / real s) 3" using f s0 by simp
  have s: "s = sum_list (map (\<lambda>text. length (filter (\<lambda>w. contains (lower text) w) vocab)) texts)"
    by (simp add: s_def cnt_def sum_count_texts)
  show "f = py_round
            (real (length (filter (\<lambda>text. contains (lower text) word) texts)) /
             real (sum_list (map (\<lambda>text. length (filter (\<lambda>w. contains (lower text) w) vocab)) texts)))
            3"
    using f' unfolding c' s .
qed


theorem topic_frequency_total_witness:
  "(''surge'', 667 / 1000) \<in> set (explain_topics
       [''Stock surge reported'', ''another surge'', ''price drop''] [''surge'', ''drop'']) \<and>
   py_round (2 / 3) 3 = 667 / 1000 \<and>
   explain_topics [''markets were quiet''] [''surge'', ''drop''] = []"
proof -
  have m: "(''surge'', 667 / 1000) \<in> set (explain_topics
       [''Stock surge reported'', ''another surge'', ''price drop''] [''surge'', ''drop''])"
    unfolding example_topics by simp
  have d: "distinct [''surge'', ''drop'']" by simp
  have "667 / 1000 = py_round
      (real (length (filter (\<lambda>text. contains (lower text) ''surge'')
         [''Stock surge reported'', ''another surge'', ''price drop''])) /
       real (sum_list (map (\<lambda>text. length (filter (\<lambda>w. contains (lower text) w)
         [''surge'', ''drop''])) [''Stock surge reported'', ''another surge'', ''price drop''])))
      3"
    using topic_frequency_total [of "[''surge'', ''drop'']" "''surge''" "667 / 1000"
      "[''Stock surge reported'', ''another surge'', ''price drop'']"] m d by blast
  then have r: "py_round (2 / 3) 3 = 667 / 1000"
    by (simp add: lower_def lower_char_def)
  have "\<forall>text\<in>set [''markets were quiet'']. \<forall>w\<in>set [''surge'', ''drop''].
      \<not> contains (lower text) w"
    by (simp add: lower_def lower_char_def)
  then have e: "explain_topics [''markets were quiet''] [''surge'', ''drop''] = []"
    using topic_frequency_total [of "[''surge'', ''drop'']" "''surge''" "667 / 1000"
      "[''markets were quiet'']"] by blast
  show ?thesis using m r e by blast
qed

lemma six_words_counter:
  "count_texts [''etf approval ban partnership surge drop''] news_vocab [] =
     [(''etf'', 1), (''approval'', 1), (''ban'', 1), (''partnership'', 1), (''surge'', 1),
      (''drop'', 1)]"
  by (simp add: news_vocab_def lower_def lower_char_def)

lemma six_words_topics:
  "explain_topics [''etf approval ban partnership surge drop''] news_vocab =
     [(''etf'', 167 / 1000), (''approval'', 167 / 1000), (''ban'', 167 / 1000),
      (''partnership'', 167 / 1000), (''surge'', 167 / 1000)]"
  unfolding explain_topics_def six_words_counter
  by (simp add: most_common_def py_round_def Let_def)

text \<open>
  Claim C4 as stated fails: one text with six vocabulary words gives each of the five kept
  words 1/6, reported as 0.167, while the counts of the kept words sum to 5 and 1/5 would
  be reported as 0.2.
\<close>

theorem kept_total_counterexample:
  "explain_topics [''etf approval ban partnership surge drop''] news_vocab =
     [(''etf'', 167 / 1000), (''approval'', 167 / 1000), (''ban'', 167 / 1000),
      (''partnership'', 167 / 1000), (''surge'', 167 / 1000)] \<and>
   sum_list (map snd (most_common 5
     (count_texts [''etf approval ban partnership surge drop''] news_vocab []))) = 5 \<and>
   py_round (1 / 5) 3 = 1 / 5"
  unfolding six_words_topics six_words_counter
  by (simp add: most_common_def py_round_def)

subsection \<open>Which words are kept\<close>

lemma tie_counter:
  "count_texts [''profit'', ''etf approval ban partnership surge''] news_vocab [] =
     [(''profit'', 1), (''etf'', 1), (''approval'', 1), (''ban'', 1), (''partnership'', 1),
      (''surge'', 1)]"
  by (simp add: news_vocab_def lower_def lower_char_def)

lemma tie_most_common:
  "most_common 5 [(''profit'', 1), (''etf'', 1), (''approval'', 1), (''ban'', 1),
      (''partnership'', 1), (''surge'', 1)] =
     [(''profit'', 1), (''etf'', 1), (''approval'', 1), (''ban'', 1), (''partnership'', 1)]"
  by (simp add: most_common_def)

lemma explain_topics_keys:
  "map fst (explain_topics texts vocab) = map fst (most_common 5 (count_texts texts vocab []))"
  by (simp add: explain_topics_def Let_def split_def comp_def)

text \<open>
  Claim C9, as the source has it. At most five words are reported, those of
  \<^verbatim>\<open>most_common(5)\<close>. The counter holds the words in the order in which they were first
  found, going through the texts in order and through the vocabulary within a text. A
  kept word has a count at least that of any word found and not kept, and where the two
  counts are equal the kept word stands before the other in the counter.
\<close>

theorem top_five_order:
  "length (explain_topics texts vocab) \<le> 5 \<and>
   map fst (explain_topics texts vocab) = map fst (most_common 5 (count_texts texts vocab [])) \<and>
   map fst (count_texts texts vocab []) =
     rev (remdups (rev (concat
       (map (\<lambda>text. filter (\<lambda>word. contains (lower text) word) vocab) texts)))) \<and>
   ((w, c) \<in> set (most_common 5 (count_texts texts vocab [])) \<and>
    (w', c') \<in> set (count_texts texts vocab []) \<and>
    (w', c') \<notin> set (most_common 5 (count_texts texts vocab [])) \<longrightarrow>
      c' \<le> c \<and>
      (c' = c \<longrightarrow> (\<exists>as bs cs. count_texts texts vocab [] = as @ (w, c) # bs @ (w', c') # cs)))"
proof (intro conjI impI)
  have "length (map fst (explain_topics texts vocab)) \<le> 5"
    unfolding explain_topics_keys by (simp add: most_common_def)
  then show "length (explain_topics texts vocab) \<le> 5" by simp
  show "map fst (explain_topics texts vocab) = map fst (most_common 5 (count_texts texts vocab []))"
    by (rule explain_topics_keys)
  show "map fst (count_texts texts vocab []) =
     rev (remdups (rev (concat
       (map (\<lambda>text. filter (\<lambda>word. contains (lower text) word) vocab) texts))))"
    using keys_count_texts [of "[]" "[]" texts vocab] by simp
next
  assume a: "(w, c) \<in> set (most_common 5 (count_texts texts vocab [])) \<and>
    (w', c') \<in> set (count_texts texts vocab []) \<and>
    (w', c') \<notin> set (most_common 5 (count_texts texts vocab []))"
  then show "c' \<le> c" using most_common_order(1) [of w c 5 "count_texts texts vocab []" w' c']
    by blast
  assume "c' = c"
  then show "\<exists>as bs cs. count_texts texts vocab [] = as @ (w, c) # bs @ (w', c') # cs"
    using a most_common_order(2) [of w c 5 "count_texts texts vocab []" w' c'] by blast
qed

theorem top_five_order_witness:
  "\<exists>as bs cs. count_texts [''profit'', ''etf approval ban partnership surge''] news_vocab [] =
      as @ (''profit'', 1) # bs @ (''surge'', 1) # cs"
proof -
  have m1: "(''profit'', 1) \<in> set (most_common 5
      (count_texts [''profit'', ''etf approval ban partnership surge''] news_vocab []))"
    unfolding tie_counter tie_most_common by simp
  have m2: "(''surge'', 1) \<in> set
      (count_texts [''profit'', ''etf approval ban partnership surge''] news_vocab [])"
    unfolding tie_counter by simp
  have m3: "(''surge'', 1) \<notin> set (most_common 5
      (count_texts [''profit'', ''etf approval ban partnership surge''] news_vocab []))"
    unfolding tie_counter tie_most_common by simp
  show ?thesis
    using top_five_order [of "[''profit'', ''etf approval ban partnership surge'']" news_vocab
      "''profit''" 1 "''surge''" 1] m1 m2 m3 by blast
qed

text \<open>
  Claim C9 as stated fails: with the texts "profit" and "etf approval ban partnership
  surge" six words have count 1; surge stands before profit in the vocabulary, and profit
  is kept while surge is dropped.
\<close>

theorem vocabulary_order_counterexample:
  "counter_get (count_texts [''profit'', ''etf approval ban partnership surge''] news_vocab [])
     ''surge'' =
   counter_get (count_texts [''profit'', ''etf approval ban partnership surge''] news_vocab [])
     ''profit'' \<and>
   ''surge'' \<in> set (takeWhile (\<lambda>word. word \<noteq> ''profit'') news_vocab) \<and>
   map fst (explain_topics [''profit'', ''etf approval ban partnership surge''] news_vocab) =
     [''profit'', ''etf'', ''approval'', ''ban'', ''partnership'']"
  unfolding explain_topics_keys tie_counter tie_most_common
  by (simp add: counter_get_def news_vocab_def)

end
